theory Spec2Isabelle
  imports Complex_Main "HOL-Library.Sublist"
begin

section \<open>The notebook \<open>examples/plot_stc.ipynb\<close>\<close>

text \<open>
  The repository is one Jupyter notebook. Its code cells import four libraries, resolve
  the path of the MNE sample dataset, join two paths below it, read a source estimate,
  print its \<open>times\<close> attribute and hand the estimate to
  \<open>mne_g3d.viz.plot_source_estimates\<close>. Everything the notebook calls is implemented
  outside the repository; the model therefore takes the behaviour of the three library
  entry points as a parameter and records, in order, every call the notebook makes.
\<close>

subsection \<open>Values, exceptions and the external libraries\<close>

text \<open>
  A raised Python exception is a value: its class name and its message. The notebook
  raises none itself; all of them come out of the libraries.
\<close>

datatype exn = Exn string string

text \<open>
  The source estimate returned by \<open>read_source_estimate\<close>. The notebook reads one
  attribute of it, \<open>times\<close>; everything else it carries stays opaque (\<open>payload\<close>).
  Each sample of \<open>times\<close> is a float64, held as the rational number it is exactly
  equal to; what \<open>print\<close> shows of it is a rounded rendering and plays no part here.
\<close>

record 'd source_estimate =
  times :: "rat list"
  payload :: 'd

text \<open>
  The values that occur as arguments of the notebook's calls: string, integer and float
  literals, \<open>True\<close>/\<open>False\<close>, \<open>None\<close>, the source estimate and the array it carries.
  A float literal is held as the decimal number it is written as; the float object
  Python makes of it is the nearest float64, a function of that decimal.
\<close>

datatype 'd pyval =
    PStr string
  | PInt int
  | PFloat rat
  | PBool bool
  | PNone
  | PStc "'d source_estimate"
  | PArr "rat list"

text \<open>
  One entry of the execution trace: an import statement, or a call with the dotted name
  the notebook calls it by, its positional arguments and its keyword arguments in the
  order they are written.
\<close>

datatype 'd event =
    Import_stmt string
  | Call string "'d pyval list" "(string \<times> 'd pyval) list"

text \<open>
  The three library entry points of the data cell, and the import machinery. Each is
  called at most once per run, so a function from the arguments to the outcome of that
  call describes one execution: \<open>Inl\<close> is the exception raised, \<open>Inr\<close> the value
  returned.
\<close>

record ('d, 'f) externals =
  import_module :: "string \<Rightarrow> exn option"
  data_path :: "unit \<Rightarrow> exn + string"
  read_source_estimate :: "string \<Rightarrow> exn + 'd source_estimate"
  plot_source_estimates ::
    "'d source_estimate \<Rightarrow> (string \<times> 'd pyval) list \<Rightarrow> exn + 'f"

subsection \<open>\<open>os.path.join\<close>\<close>

text \<open>
  \<open>path\<close> is \<open>os.path\<close>. For two \<open>str\<close> arguments on a POSIX system \<open>join\<close> is:
  a second component that starts with the separator replaces the first; an empty first
  component, or one that already ends in the separator, is extended directly; otherwise
  the separator is put between the two.
\<close>

definition sep :: char where
  "sep = CHR ''/''"

definition startswith :: "string \<Rightarrow> char \<Rightarrow> bool" where
  "startswith s c = (case s of [] \<Rightarrow> False | x # _ \<Rightarrow> x = c)"

definition endswith :: "string \<Rightarrow> char \<Rightarrow> bool" where
  "endswith s c = (case rev s of [] \<Rightarrow> False | x # _ \<Rightarrow> x = c)"

definition join :: "string \<Rightarrow> string \<Rightarrow> string" where
  "join a b =
     (if startswith b sep then b
      else if a = [] \<or> endswith a sep then a @ b
      else a @ [sep] @ b)"

text \<open>
  The components of a path: the pieces between separators, empty pieces left out.
\<close>

fun parts_from :: "string \<Rightarrow> string \<Rightarrow> string list" where
  "parts_from w [] = (if w = [] then [] else [w])"
| "parts_from w (c # cs) =
     (if c = sep then (if w = [] then parts_from [] cs else w # parts_from [] cs)
      else parts_from (w @ [c]) cs)"

definition parts :: "string \<Rightarrow> string list" where
  "parts s = parts_from [] s"

subsection \<open>The cells\<close>

text \<open>
  The outcome of running a piece of the notebook: the calls made, in order, and either
  the exception that ended the run or the value produced.
\<close>

type_synonym ('d, 'a) outcome = "'d event list \<times> (exn + 'a)"

text \<open>
  An import statement either raises or binds a name; a run of imports stops at the
  first one that raises. The import machinery is asked by the dotted name of what is
  imported: the module for \<open>import m\<close>, the module's member for \<open>from m import x\<close>.
\<close>

fun run_imports :: "('d, 'f) externals \<Rightarrow> string list \<Rightarrow> ('d, unit) outcome" where
  "run_imports ext [] = ([], Inr ())"
| "run_imports ext (m # ms) =
     (case import_module ext m of
        Some e \<Rightarrow> ([Import_stmt m], Inl e)
      | None \<Rightarrow> (case run_imports ext ms of (tr, r) \<Rightarrow> (Import_stmt m # tr, r)))"

text \<open>
  First code cell:
  \<^verbatim>\<open>import os.path as path\<close>, \<^verbatim>\<open>import mne\<close>,
  \<^verbatim>\<open>from mne import read_source_estimate\<close>, \<^verbatim>\<open>import numpy as np\<close>.
\<close>

definition cell_imports :: "('d, 'f) externals \<Rightarrow> ('d, unit) outcome" where
  "cell_imports ext =
     run_imports ext [''os.path'', ''mne'', ''mne.read_source_estimate'', ''numpy'']"

text \<open>Second code cell: \<^verbatim>\<open>import mne_g3d\<close>.\<close>

definition cell_import_g3d :: "('d, 'f) externals \<Rightarrow> ('d, unit) outcome" where
  "cell_import_g3d ext = run_imports ext [''mne_g3d'']"

text \<open>
  The keyword arguments of the one call of \<open>plot_source_estimates\<close>, as written in
  the cell, with the two variables \<open>subject\<close> and \<open>subjects_dir\<close> it mentions.
\<close>

definition plot_keywords :: "string \<Rightarrow> string \<Rightarrow> (string \<times> 'd pyval) list" where
  "plot_keywords subject subjects_dir =
     [(''subject'', PStr subject), (''surface'', PStr ''inflated''), (''hemi'', PStr ''both''),
      (''colormap'', PStr ''hot''), (''smoothing_steps'', PInt 10),
      (''transparent'', PBool False), (''alpha'', PFloat 1.0),
      (''subjects_dir'', PStr subjects_dir),
      (''clim'', PStr ''auto''), (''figure'', PNone), (''size'', PInt 800),
      (''background'', PStr ''black''), (''initial_time'', PFloat 0.23)]"

text \<open>
  Third code cell, statement by statement. The trace grows by one entry per call; a
  call that raises ends the cell with that exception, since the cell has no handler.
  \<^verbatim>\<open>
  data_path = mne.datasets.sample.data_path()
  subject = 'sample'
  subjects_dir = path.join(data_path, 'subjects')
  act_data = path.join(data_path, 'MEG/sample/sample_audvis-meg-eeg')
  stc = read_source_estimate(act_data)
  print(stc.times)
  fig = mne_g3d.viz.plot_source_estimates(stc, subject=subject, ...)
  \<close>
\<close>

definition cell_data_plot :: "('d, 'f) externals \<Rightarrow> ('d, 'f) outcome" where
  "cell_data_plot ext =
     (let tr1 = [Call ''mne.datasets.sample.data_path'' [] []] in
      case data_path ext () of
        Inl e \<Rightarrow> (tr1, Inl e)
      | Inr data_path_v \<Rightarrow>
     (let subject = ''sample'';
          subjects_dir = join data_path_v ''subjects'';
          tr2 = tr1 @ [Call ''path.join'' [PStr data_path_v, PStr ''subjects''] []];
          act_data = join data_path_v ''MEG/sample/sample_audvis-meg-eeg'';
          tr3 = tr2 @ [Call ''path.join''
                         [PStr data_path_v, PStr ''MEG/sample/sample_audvis-meg-eeg''] []];
          tr4 = tr3 @ [Call ''read_source_estimate'' [PStr act_data] []] in
      case read_source_estimate ext act_data of
        Inl e \<Rightarrow> (tr4, Inl e)
      | Inr stc \<Rightarrow>
     (let tr5 = tr4 @ [Call ''print'' [PArr (times stc)] []];
          kw = plot_keywords subject subjects_dir;
          tr6 = tr5 @ [Call ''mne_g3d.viz.plot_source_estimates'' [PStc stc] kw] in
      case plot_source_estimates ext stc kw of
        Inl e \<Rightarrow> (tr6, Inl e)
      | Inr fig \<Rightarrow> (tr6, Inr fig))))"

text \<open>
  The notebook, run from top to bottom: the cells run in order and a cell that raises
  stops the run. The fourth code cell is empty.
\<close>

definition notebook :: "('d, 'f) externals \<Rightarrow> ('d, 'f) outcome" where
  "notebook ext =
     (case cell_imports ext of
        (t1, Inl e) \<Rightarrow> (t1, Inl e)
      | (t1, Inr _) \<Rightarrow>
     (case cell_import_g3d ext of
        (t2, Inl e) \<Rightarrow> (t1 @ t2, Inl e)
      | (t2, Inr _) \<Rightarrow>
     (case cell_data_plot ext of (t3, r) \<Rightarrow> (t1 @ t2 @ t3, r))))"

subsection \<open>The notebook as a document\<close>

text \<open>
  The cells of the file in order, each with its kind and its source lines as they stand
  in the \<open>source\<close> array of the cell (the line terminators left out).
\<close>

datatype cell_type = Markdown | Code

record cell =
  cell_type :: cell_type
  source :: "string list"

definition notebook_cells :: "cell list" where
  \<open>notebook_cells =
    [\<lparr>cell_type = Markdown, source = [''# Brain Mesh'']\<rparr>,
     \<lparr>cell_type = Markdown, source = [''## Import of  modules'']\<rparr>,
     \<lparr>cell_type = Code, source =
        [''import os.path as path'',
         '''',
         ''import mne'',
         ''from mne import read_source_estimate'',
         '''',
         ''import numpy as np'']\<rparr>,
     \<lparr>cell_type = Code, source = [''import mne_g3d'']\<rparr>,
     \<lparr>cell_type = Markdown, source = [''## Data reading'']\<rparr>,
     \<lparr>cell_type = Code, source =
        [''data_path = mne.datasets.sample.data_path()'',
         '''',
         ''subject = \'sample'' @ [CHR 0x27],
         ''subjects_dir = path.join(data_path, \'subjects\')'',
         ''act_data = path.join(data_path, \'MEG/sample/sample_audvis-meg-eeg\')'',
         '''',
         ''stc = read_source_estimate(act_data)'',
         ''print(stc.times)'',
         ''#"lat", "med", "fos", "cau", "dor",'',
         ''#        "ven", "fro", "par"].'',
         '''',
         ''fig = mne_g3d.viz.plot_source_estimates(stc, subject=subject, surface=\'inflated\', hemi=\'both\','',
         ''                          colormap=\'hot\', smoothing_steps=10, '',
         ''                          transparent=False, alpha=1.0, subjects_dir=subjects_dir,'',
         ''                          clim=\'auto\', figure=None, size=800,'',
         ''                          background="black", initial_time=0.23)'']\<rparr>,
     \<lparr>cell_type = Code, source = []\<rparr>]\<close>

definition code_lines :: "cell list \<Rightarrow> string list" where
  "code_lines cs = concat (map source (filter (\<lambda>c. cell_type c = Code) cs))"

definition all_lines :: "cell list \<Rightarrow> string list" where
  "all_lines cs = concat (map source cs)"





subsection \<open>The statements of the code cells\<close>

text \<open>
  The abstract syntax of the code cells, with the constructors of Python's \<open>ast\<close>
  module that the notebook could have used: expressions are names, attribute accesses,
  literals and calls; statements are imports, assignments and expression statements,
  and the compound statements that would make up control flow.
\<close>

datatype expr =
    EName string
  | EAttr expr string
  | EStr string
  | EInt int
  | EFloat rat
  | EBool bool
  | ENone
  | ECall expr "expr list" "(string \<times> expr) list"

datatype stmt =
    Import string "string option"
  | ImportFrom string string
  | Assign expr expr
  | Expr expr
  | If expr "stmt list" "stmt list"
  | While expr "stmt list"
  | For expr expr "stmt list"
  | Try "stmt list" "stmt list"
  | With expr "stmt list"
  | FunctionDef string "stmt list"

definition plot_call :: expr where
  "plot_call =
     ECall (EAttr (EAttr (EName ''mne_g3d'') ''viz'') ''plot_source_estimates'')
       [EName ''stc'']
       [(''subject'', EName ''subject''), (''surface'', EStr ''inflated''),
        (''hemi'', EStr ''both''), (''colormap'', EStr ''hot''),
        (''smoothing_steps'', EInt 10), (''transparent'', EBool False),
        (''alpha'', EFloat 1.0), (''subjects_dir'', EName ''subjects_dir''),
        (''clim'', EStr ''auto''), (''figure'', ENone), (''size'', EInt 800),
        (''background'', EStr ''black''), (''initial_time'', EFloat 0.23)]"

definition load_call :: expr where
  "load_call = ECall (EName ''read_source_estimate'') [EName ''act_data''] []"

definition print_call :: expr where
  "print_call = ECall (EName ''print'') [EAttr (EName ''stc'') ''times''] []"

definition code_cells :: "stmt list list" where
  "code_cells =
     [[Import ''os.path'' (Some ''path''),
       Import ''mne'' None,
       ImportFrom ''mne'' ''read_source_estimate'',
       Import ''numpy'' (Some ''np'')],
      [Import ''mne_g3d'' None],
      [Assign (EName ''data_path'')
         (ECall (EAttr (EAttr (EAttr (EName ''mne'') ''datasets'') ''sample'') ''data_path'')
            [] []),
       Assign (EName ''subject'') (EStr ''sample''),
       Assign (EName ''subjects_dir'')
         (ECall (EAttr (EName ''path'') ''join'') [EName ''data_path'', EStr ''subjects''] []),
       Assign (EName ''act_data'')
         (ECall (EAttr (EName ''path'') ''join'')
            [EName ''data_path'', EStr ''MEG/sample/sample_audvis-meg-eeg''] []),
       Assign (EName ''stc'') load_call,
       Expr print_call,
       Assign (EName ''fig'') plot_call],
      []]"

text \<open>The dotted name an expression spells, if it is one.\<close>

fun dotted :: "expr \<Rightarrow> string option" where
  "dotted (EName n) = Some n"
| "dotted (EAttr e a) = (case dotted e of None \<Rightarrow> None | Some m \<Rightarrow> Some (m @ ''.'' @ a))"
| "dotted _ = None"

text \<open>
  What a statement does. A call is told by the name called. A widget is displayed by
  a call of IPython's \<open>display\<close>, or by an expression statement that is just a name,
  which makes the cell show that value.
\<close>

datatype kind =
    K_import
  | K_dataset_path
  | K_literal
  | K_path_join
  | K_load
  | K_print
  | K_plot
  | K_display
  | K_control_flow
  | K_other

definition kind_of_callee :: "string option \<Rightarrow> kind" where
  "kind_of_callee f =
     (if f = Some ''mne.datasets.sample.data_path'' then K_dataset_path
      else if f = Some ''path.join'' then K_path_join
      else if f = Some ''read_source_estimate'' then K_load
      else if f = Some ''print'' then K_print
      else if f = Some ''mne_g3d.viz.plot_source_estimates'' then K_plot
      else if f = Some ''display'' then K_display
      else K_other)"

fun is_literal :: "expr \<Rightarrow> bool" where
  "is_literal (EStr _) = True"
| "is_literal (EInt _) = True"
| "is_literal (EFloat _) = True"
| "is_literal (EBool _) = True"
| "is_literal ENone = True"
| "is_literal _ = False"

fun kind_of_expr :: "expr \<Rightarrow> kind" where
  "kind_of_expr (ECall f args kws) = kind_of_callee (dotted f)"
| "kind_of_expr e = (if is_literal e then K_literal else K_other)"

fun kind_of :: "stmt \<Rightarrow> kind" where
  "kind_of (Import _ _) = K_import"
| "kind_of (ImportFrom _ _) = K_import"
| "kind_of (Assign (EName _) e) = kind_of_expr e"
| "kind_of (Assign _ _) = K_other"
| "kind_of (Expr (EName _)) = K_display"
| "kind_of (Expr e) = kind_of_expr e"
| "kind_of _ = K_control_flow"


text \<open>The dotted name a statement calls, if the statement is a call or assigns one.\<close>

fun callee_of :: "stmt \<Rightarrow> string option" where
  "callee_of (Assign _ (ECall f _ _)) = dotted f"
| "callee_of (Expr (ECall f _ _)) = dotted f"
| "callee_of _ = None"

text \<open>The names an expression reads, in order of occurrence.\<close>

fun names_of :: "expr \<Rightarrow> string list" where
  "names_of (EName n) = [n]"
| "names_of (EAttr e a) = names_of e"
| "names_of (ECall f args kws) =
     names_of f @ concat (map names_of args) @ concat (map (\<lambda>kw. names_of (snd kw)) kws)"
| "names_of _ = []"

text \<open>
  The value of an argument expression, given the values of the variables: literals
  stand for themselves, a name for the value bound to it, and \<open>e.times\<close> for the
  array of the source estimate that \<open>e\<close> stands for. A call has no value here: no
  argument in the notebook is a call.
\<close>

fun arg_value :: "(string \<rightharpoonup> 'd pyval) \<Rightarrow> expr \<Rightarrow> 'd pyval option" where
  "arg_value env (EName n) = env n"
| "arg_value env (EStr s) = Some (PStr s)"
| "arg_value env (EInt i) = Some (PInt i)"
| "arg_value env (EFloat x) = Some (PFloat x)"
| "arg_value env (EBool b) = Some (PBool b)"
| "arg_value env ENone = Some PNone"
| "arg_value env (EAttr e a) =
     (case arg_value env e of
        Some (PStc s) \<Rightarrow> (if a = ''times'' then Some (PArr (times s)) else None)
      | _ \<Rightarrow> None)"
| "arg_value env (ECall f args kws) = None"

fun keywords_of :: "expr \<Rightarrow> (string \<times> expr) list" where
  "keywords_of (ECall f args kws) = kws"
| "keywords_of _ = []"

fun positional_of :: "expr \<Rightarrow> expr list" where
  "positional_of (ECall f args kws) = args"
| "positional_of _ = []"

text \<open>
  The expressions of a statement, those of nested statements included, and whether a
  statement mentions a variable.
\<close>

fun exprs_of :: "stmt \<Rightarrow> expr list" where
  "exprs_of (Import _ _) = []"
| "exprs_of (ImportFrom _ _) = []"
| "exprs_of (Assign t e) = [t, e]"
| "exprs_of (Expr e) = [e]"
| "exprs_of (If c a b) = c # concat (map exprs_of a) @ concat (map exprs_of b)"
| "exprs_of (While c b) = c # concat (map exprs_of b)"
| "exprs_of (For t i b) = t # i # concat (map exprs_of b)"
| "exprs_of (Try a b) = concat (map exprs_of a) @ concat (map exprs_of b)"
| "exprs_of (With e b) = e # concat (map exprs_of b)"
| "exprs_of (FunctionDef _ b) = concat (map exprs_of b)"

definition mentions :: "string \<Rightarrow> stmt \<Rightarrow> bool" where
  "mentions n s = (n \<in> set (concat (map names_of (exprs_of s))))"

text \<open>
  A statement stores into an object when it assigns to something other than a plain
  name (an attribute of an object, say).
\<close>

fun stores_into_object :: "stmt \<Rightarrow> bool" where
  "stores_into_object (Assign (EName _) _) = False"
| "stores_into_object (Assign _ _) = True"
| "stores_into_object (For (EName _) _ _) = False"
| "stores_into_object (For _ _ _) = True"
| "stores_into_object _ = False"

subsection \<open>Observing a run\<close>

text \<open>The name of the operation an entry of the trace stands for.\<close>

fun event_name :: "'d event \<Rightarrow> string" where
  "event_name (Import_stmt m) = ''import''"
| "event_name (Call f args kws) = f"

text \<open>The calls of one function in a trace: the arguments of each, in order.\<close>

fun calls_of ::
  "string \<Rightarrow> 'd event list \<Rightarrow> ('d pyval list \<times> (string \<times> 'd pyval) list) list" where
  "calls_of f [] = []"
| "calls_of f (Import_stmt m # tr) = calls_of f tr"
| "calls_of f (Call g args kws # tr) =
     (if g = f then (args, kws) # calls_of f tr else calls_of f tr)"

text \<open>
  The exception a library operation raises in this execution, if it raises:
  the import machinery and the three entry points can raise; \<open>path.join\<close> on two
  strings and \<open>print\<close> do not.
\<close>

fun raised_by :: "('d, 'f) externals \<Rightarrow> 'd event \<Rightarrow> exn option" where
  "raised_by ext (Import_stmt m) = import_module ext m"
| "raised_by ext (Call f args kws) =
     (if f = ''mne.datasets.sample.data_path''
      then (case data_path ext () of Inl e \<Rightarrow> Some e | Inr _ \<Rightarrow> None)
      else if f = ''read_source_estimate''
      then (case args of
              [PStr p] \<Rightarrow>
                (case read_source_estimate ext p of Inl e \<Rightarrow> Some e | Inr _ \<Rightarrow> None)
            | _ \<Rightarrow> None)
      else if f = ''mne_g3d.viz.plot_source_estimates''
      then (case args of
              [PStc s] \<Rightarrow>
                (case plot_source_estimates ext s kws of Inl e \<Rightarrow> Some e | Inr _ \<Rightarrow> None)
            | _ \<Rightarrow> None)
      else None)"

text \<open>
  The calls the data cell has made when \<open>read_source_estimate\<close> is entered, given the
  dataset path \<open>p\<close>.
\<close>

definition calls_to_load :: "string \<Rightarrow> 'd event list" where
  "calls_to_load p =
     [Call ''mne.datasets.sample.data_path'' [] [],
      Call ''path.join'' [PStr p, PStr ''subjects''] [],
      Call ''path.join'' [PStr p, PStr ''MEG/sample/sample_audvis-meg-eeg''] [],
      Call ''read_source_estimate'' [PStr (join p ''MEG/sample/sample_audvis-meg-eeg'')] []]"

text \<open>The order in which the data cell performs its operations.\<close>

definition data_cell_order :: "string list" where
  "data_cell_order =
     [''mne.datasets.sample.data_path'', ''path.join'', ''path.join'',
      ''read_source_estimate'', ''print'', ''mne_g3d.viz.plot_source_estimates'']"

text \<open>
  The variables of the data cell when the plot call is reached, given the dataset
  path \<open>p\<close> and the loaded object \<open>s\<close>; and the keyword arguments of a call as
  written, each evaluated in an environment.
\<close>

definition data_cell_env :: "string \<Rightarrow> 'd source_estimate \<Rightarrow> (string \<rightharpoonup> 'd pyval)" where
  "data_cell_env p s =
     [''data_path'' \<mapsto> PStr p,
      ''subject'' \<mapsto> PStr ''sample'',
      ''subjects_dir'' \<mapsto> PStr (join p ''subjects''),
      ''act_data'' \<mapsto> PStr (join p ''MEG/sample/sample_audvis-meg-eeg''),
      ''stc'' \<mapsto> PStc s]"

definition eval_keywords ::
  "(string \<rightharpoonup> 'd pyval) \<Rightarrow> (string \<times> expr) list \<Rightarrow> (string \<times> 'd pyval option) list" where
  "eval_keywords env kws = map (\<lambda>kw. (fst kw, arg_value env (snd kw))) kws"

text \<open>The ten configuration options of the plotting call.\<close>

definition configuration_options :: "string list" where
  "configuration_options =
     [''surface'', ''hemi'', ''colormap'', ''smoothing_steps'', ''transparent'', ''alpha'',
      ''clim'', ''size'', ''background'', ''initial_time'']"

subsection \<open>Concrete executions\<close>

text \<open>
  Three executions to evaluate the model on. In \<open>recorded_run\<close> the dataset is in
  place, the recording can be read (three sample times stand for its array), and the
  plot succeeds. In \<open>missing_file_run\<close> the dataset directory is there but the
  recording cannot be read. In \<open>render_failure_run\<close> the plot raises.
\<close>

definition sample_root :: string where
  "sample_root = ''/home/user/mne_data/MNE-sample-data''"

definition sample_stc :: "nat source_estimate" where
  "sample_stc = \<lparr>times = [0, 1 / 128, 1 / 64], payload = 0\<rparr>"

definition recorded_run :: "(nat, nat) externals" where
  "recorded_run =
     \<lparr>import_module = (\<lambda>m. None),
      data_path = (\<lambda>u. Inr sample_root),
      read_source_estimate =
        (\<lambda>f. if f = sample_root @ ''/MEG/sample/sample_audvis-meg-eeg'' then Inr sample_stc
             else Inl (Exn ''OSError'' ''file not found'')),
      plot_source_estimates = (\<lambda>s kw. Inr 1)\<rparr>"

definition missing_file_run :: "(nat, nat) externals" where
  "missing_file_run =
     recorded_run\<lparr>read_source_estimate := (\<lambda>f. Inl (Exn ''OSError'' ''file not found''))\<rparr>"

definition render_failure_run :: "(nat, nat) externals" where
  "render_failure_run =
     recorded_run\<lparr>plot_source_estimates := (\<lambda>s kw. Inl (Exn ''RuntimeError'' ''no display''))\<rparr>"

section \<open>Properties\<close>

subsection \<open>The three ways the data cell can end\<close>

text \<open>
  The cell is straight-line code around three library calls, so a run is determined by
  which of them raises first: \<open>data_path\<close>, \<open>read_source_estimate\<close>, or neither of
  the two, in which case the cell ends the way the plot call ends.
\<close>

lemma cell_data_plot_no_dataset:
  "data_path ext () = Inl e \<Longrightarrow>
   cell_data_plot ext = ([Call ''mne.datasets.sample.data_path'' [] []], Inl e)"
  by (simp add: cell_data_plot_def)

lemma cell_data_plot_no_file:
  "data_path ext () = Inr p \<Longrightarrow>
   read_source_estimate ext (join p ''MEG/sample/sample_audvis-meg-eeg'') = Inl e \<Longrightarrow>
   cell_data_plot ext = (calls_to_load p, Inl e)"
  by (simp add: cell_data_plot_def calls_to_load_def)

lemma cell_data_plot_loaded:
  "data_path ext () = Inr p \<Longrightarrow>
   read_source_estimate ext (join p ''MEG/sample/sample_audvis-meg-eeg'') = Inr s \<Longrightarrow>
   cell_data_plot ext =
     (calls_to_load p @
        [Call ''print'' [PArr (times s)] [],
         Call ''mne_g3d.viz.plot_source_estimates'' [PStc s]
           (plot_keywords ''sample'' (join p ''subjects''))],
      plot_source_estimates ext s (plot_keywords ''sample'' (join p ''subjects'')))"
  by (simp add: cell_data_plot_def calls_to_load_def Let_def split: sum.splits)

text \<open>
  A relative second component is appended to the first, with or without a separator
  in between.
\<close>

lemma join_relative:
  "\<not> startswith b sep \<Longrightarrow> join a b = a @ b \<or> join a b = a @ [sep] @ b"
  by (simp add: join_def)

text \<open>An index below \<open>n + 1\<close> is \<open>n\<close> or below \<open>n\<close>.\<close>

lemma all_less_Suc_nth:
  "(\<forall>i < Suc n. P i) = (P n \<and> (\<forall>i < n. P i))"
  by (auto simp: less_Suc_eq)

text \<open>
  The components of a joined path: those of the first path followed by those of the
  relative second one.
\<close>

lemma parts_from_sep:
  "parts_from w (a @ sep # b) = parts_from w a @ parts_from [] b"
  by (induction a arbitrary: w) simp_all

lemma parts_join:
  assumes "\<not> startswith b sep"
  shows "parts (join a b) = parts a @ parts b"
proof (cases "a = []")
  case True
  with assms show ?thesis by (simp add: join_def parts_def)
next
  case False
  show ?thesis
  proof (cases "endswith a sep")
    case True
    then obtain q where q: "a = q @ [sep]"
      by (cases a rule: rev_cases) (auto simp: endswith_def)
    have "parts (join a b) = parts_from [] (q @ sep # b)"
      using assms True by (simp add: join_def parts_def q)
    also have "\<dots> = parts q @ parts b"
      by (simp add: parts_from_sep parts_def)
    also have "parts q = parts a"
      using parts_from_sep [of "[]" q "[]"] by (simp add: parts_def q)
    finally show ?thesis .
  next
    case no: False
    have "parts (join a b) = parts_from [] (a @ sep # b)"
      using assms False no by (simp add: join_def parts_def)
    then show ?thesis by (simp add: parts_from_sep parts_def)
  qed
qed

lemma parts_subjects: "parts ''subjects'' = [''subjects'']"
  by (simp add: parts_def sep_def)

lemma parts_act_file:
  "parts ''MEG/sample/sample_audvis-meg-eeg'' = [''MEG'', ''sample'', ''sample_audvis-meg-eeg'']"
  by (simp add: parts_def sep_def)

text \<open>
  The arguments written in the load, print and plot calls, evaluated in the variables
  of the data cell, are the arguments the model passes.
\<close>

lemma plot_keywords_evaluated:
  "eval_keywords (data_cell_env p s) (keywords_of plot_call) =
     map (\<lambda>kw. (fst kw, Some (snd kw))) (plot_keywords ''sample'' (join p ''subjects''))"
  by (simp add: eval_keywords_def data_cell_env_def plot_call_def plot_keywords_def)

lemma plot_positional_evaluated:
  "map (arg_value (data_cell_env p s)) (positional_of plot_call) = [Some (PStc s)]"
  by (simp add: data_cell_env_def plot_call_def)

lemma load_positional_evaluated:
  "map (arg_value (data_cell_env p s)) (positional_of load_call) =
     [Some (PStr (join p ''MEG/sample/sample_audvis-meg-eeg''))]"
  by (simp add: data_cell_env_def load_call_def)

subsection \<open>The concrete executions\<close>

lemma sample_root_join:
  "join sample_root ''MEG/sample/sample_audvis-meg-eeg'' =
     sample_root @ ''/MEG/sample/sample_audvis-meg-eeg''"
  by (simp add: join_def sample_root_def startswith_def endswith_def sep_def)

lemma recorded_run_path: "data_path recorded_run () = Inr sample_root"
  by (simp add: recorded_run_def)

lemma recorded_run_read:
  "read_source_estimate recorded_run (join sample_root ''MEG/sample/sample_audvis-meg-eeg'') =
     Inr sample_stc"
  unfolding sample_root_join by (simp add: recorded_run_def)

lemma recorded_trace:
  "fst (cell_data_plot recorded_run) =
     calls_to_load sample_root @
       [Call ''print'' [PArr (times sample_stc)] [],
        Call ''mne_g3d.viz.plot_source_estimates'' [PStc sample_stc]
          (plot_keywords ''sample'' (join sample_root ''subjects''))]"
  by (simp add: cell_data_plot_loaded [OF recorded_run_path recorded_run_read])

lemma render_failure_run_path: "data_path render_failure_run () = Inr sample_root"
  by (simp add: render_failure_run_def recorded_run_def)

lemma render_failure_run_read:
  "read_source_estimate render_failure_run
     (join sample_root ''MEG/sample/sample_audvis-meg-eeg'') = Inr sample_stc"
  unfolding sample_root_join by (simp add: render_failure_run_def recorded_run_def)

lemma missing_file_trace:
  "cell_data_plot missing_file_run =
     (calls_to_load sample_root, Inl (Exn ''OSError'' ''file not found''))"
  by (rule cell_data_plot_no_file) (simp_all add: missing_file_run_def recorded_run_def)

lemma missing_file_run_path: "data_path missing_file_run () = Inr sample_root"
  by (simp add: missing_file_run_def recorded_run_def)

lemma missing_file_run_read:
  "read_source_estimate missing_file_run f = Inl (Exn ''OSError'' ''file not found'')"
  by (simp add: missing_file_run_def)

lemma render_failure_run_plot:
  "plot_source_estimates render_failure_run s kw = Inl (Exn ''RuntimeError'' ''no display'')"
  by (simp add: render_failure_run_def)

lemma recorded_run_plot: "plot_source_estimates recorded_run s kw = Inr 1"
  by (simp add: recorded_run_def)

subsection \<open>The notebook run from the top\<close>

text \<open>
  When every import succeeds the notebook is the five imports followed by the data
  cell; when the first import raises, nothing else runs.
\<close>

lemma notebook_imports_succeed:
  assumes "\<And>m. import_module ext m = None"
  shows "notebook ext =
     (map Import_stmt
        [''os.path'', ''mne'', ''mne.read_source_estimate'', ''numpy'', ''mne_g3d'']
        @ fst (cell_data_plot ext), snd (cell_data_plot ext))"
  by (simp add: notebook_def cell_imports_def cell_import_g3d_def assms split: prod.splits)

lemma notebook_import_fails:
  assumes "import_module ext ''os.path'' = Some e"
  shows "notebook ext = ([Import_stmt ''os.path''], Inl e)"
  by (simp add: notebook_def cell_imports_def assms)

subsection \<open>The plotting call and its options\<close>

text \<open>
  C1. Whenever the data cell gets as far as the plot, it calls
  \<open>mne_g3d.viz.plot_source_estimates\<close> exactly once, and the cell ends the way that
  call ends when the library is given the loaded object and keyword arguments with
  surface \<open>'inflated'\<close>, hemi \<open>'both'\<close>, colormap \<open>'hot'\<close>, smoothing_steps \<open>10\<close>,
  transparent \<open>False\<close>, alpha \<open>1.0\<close>, clim \<open>'auto'\<close>, size \<open>800\<close>, background
  \<open>"black"\<close> and initial_time \<open>0.23\<close>. The keyword arguments given to the library are
  the ones written in the call, each evaluated in the cell's variables; the ten options
  are written as literals, and the value given is the value of the literal: nothing is
  computed from it on the way.
\<close>

theorem plot_options_verbatim:
  assumes "data_path ext () = Inr p"
    and "read_source_estimate ext (join p ''MEG/sample/sample_audvis-meg-eeg'') = Inr s"
  shows "\<exists>kw. snd (cell_data_plot ext) = plot_source_estimates ext s kw
          \<and> calls_of ''mne_g3d.viz.plot_source_estimates'' (fst (cell_data_plot ext))
               = [([PStc s], kw)]
          \<and> map_of kw ''surface'' = Some (PStr ''inflated'')
          \<and> map_of kw ''hemi'' = Some (PStr ''both'')
          \<and> map_of kw ''colormap'' = Some (PStr ''hot'')
          \<and> map_of kw ''smoothing_steps'' = Some (PInt 10)
          \<and> map_of kw ''transparent'' = Some (PBool False)
          \<and> map_of kw ''alpha'' = Some (PFloat 1.0)
          \<and> map_of kw ''clim'' = Some (PStr ''auto'')
          \<and> map_of kw ''size'' = Some (PInt 800)
          \<and> map_of kw ''background'' = Some (PStr ''black'')
          \<and> map_of kw ''initial_time'' = Some (PFloat 0.23)
          \<and> eval_keywords (data_cell_env p s) (keywords_of plot_call)
               = map (\<lambda>kw. (fst kw, Some (snd kw))) kw
          \<and> (\<forall>k \<in> set configuration_options.
                \<exists>e. map_of (keywords_of plot_call) k = Some e \<and> is_literal e
                  \<and> map_of kw k = arg_value Map.empty e)"
proof -
  let ?kw = "plot_keywords ''sample'' (join p ''subjects'') :: (string \<times> 'a pyval) list"
  have app: "snd (cell_data_plot ext) = plot_source_estimates ext s ?kw"
    by (simp add: cell_data_plot_loaded [OF assms])
  have tr: "calls_of ''mne_g3d.viz.plot_source_estimates'' (fst (cell_data_plot ext))
              = [([PStc s], ?kw)]"
    by (simp add: cell_data_plot_loaded [OF assms] calls_to_load_def)
  have vals: "map_of ?kw ''surface'' = Some (PStr ''inflated'')"
    "map_of ?kw ''hemi'' = Some (PStr ''both'')"
    "map_of ?kw ''colormap'' = Some (PStr ''hot'')"
    "map_of ?kw ''smoothing_steps'' = Some (PInt 10)"
    "map_of ?kw ''transparent'' = Some (PBool False)"
    "map_of ?kw ''alpha'' = Some (PFloat 1.0)"
    "map_of ?kw ''clim'' = Some (PStr ''auto'')"
    "map_of ?kw ''size'' = Some (PInt 800)"
    "map_of ?kw ''background'' = Some (PStr ''black'')"
    "map_of ?kw ''initial_time'' = Some (PFloat 0.23)"
    by (simp_all add: plot_keywords_def)
  have ev: "eval_keywords (data_cell_env p s) (keywords_of plot_call)
               = map (\<lambda>kw. (fst kw, Some (snd kw))) ?kw"
    by (rule plot_keywords_evaluated)
  have lit: "\<forall>k \<in> set configuration_options.
                \<exists>e. map_of (keywords_of plot_call) k = Some e \<and> is_literal e
                  \<and> map_of ?kw k = arg_value Map.empty e"
    by (simp add: configuration_options_def plot_call_def plot_keywords_def)
  from app tr vals ev lit show ?thesis by blast
qed

theorem plot_options_verbatim_witness:
  "data_path recorded_run () = Inr sample_root
   \<and> read_source_estimate recorded_run
       (join sample_root ''MEG/sample/sample_audvis-meg-eeg'') = Inr sample_stc
   \<and> (\<exists>kw. snd (cell_data_plot recorded_run) = plot_source_estimates recorded_run sample_stc kw
          \<and> calls_of ''mne_g3d.viz.plot_source_estimates'' (fst (cell_data_plot recorded_run))
               = [([PStc sample_stc], kw)]
          \<and> map_of kw ''surface'' = Some (PStr ''inflated'')
          \<and> map_of kw ''smoothing_steps'' = Some (PInt 10)
          \<and> map_of kw ''initial_time'' = Some (PFloat 0.23))"
  using plot_options_verbatim [OF recorded_run_path recorded_run_read]
    recorded_run_path recorded_run_read
  by blast

subsection \<open>Exceptions\<close>

text \<open>
  C2. The data cell has no handler. It ends with exception \<open>e\<close> exactly when
  \<open>data_path\<close> raises \<open>e\<close>, or \<open>data_path\<close> returns and \<open>read_source_estimate\<close>
  raises \<open>e\<close>, or both return and \<open>plot_source_estimates\<close> raises \<open>e\<close>. When
  \<open>data_path\<close> raises, the cell has made that one call and no other; when
  \<open>read_source_estimate\<close> raises, the cell has made the calls up to it and no other;
  otherwise the cell makes all its calls and ends as the plot call ends. In terms of
  the trace: the cell ends with \<open>e\<close> exactly when a call it made raised \<open>e\<close>, and a
  call that raises is the last entry. No code cell contains a compound statement,
  hence no \<open>try\<close>.
\<close>

theorem exceptions_propagate:
  "(snd (cell_data_plot ext) = Inl e \<longleftrightarrow>
      data_path ext () = Inl e
      \<or> (\<exists>p. data_path ext () = Inr p
            \<and> read_source_estimate ext (join p ''MEG/sample/sample_audvis-meg-eeg'') = Inl e)
      \<or> (\<exists>p s. data_path ext () = Inr p
            \<and> read_source_estimate ext (join p ''MEG/sample/sample_audvis-meg-eeg'') = Inr s
            \<and> plot_source_estimates ext s (plot_keywords ''sample'' (join p ''subjects''))
                = Inl e))
   \<and> (data_path ext () = Inl e \<longrightarrow>
        cell_data_plot ext = ([Call ''mne.datasets.sample.data_path'' [] []], Inl e))
   \<and> (\<forall>p. data_path ext () = Inr p
          \<and> read_source_estimate ext (join p ''MEG/sample/sample_audvis-meg-eeg'') = Inl e
        \<longrightarrow> cell_data_plot ext = (calls_to_load p, Inl e))
   \<and> (\<forall>p s. data_path ext () = Inr p
          \<and> read_source_estimate ext (join p ''MEG/sample/sample_audvis-meg-eeg'') = Inr s
        \<longrightarrow> cell_data_plot ext =
             (calls_to_load p @
                [Call ''print'' [PArr (times s)] [],
                 Call ''mne_g3d.viz.plot_source_estimates'' [PStc s]
                   (plot_keywords ''sample'' (join p ''subjects''))],
              plot_source_estimates ext s (plot_keywords ''sample'' (join p ''subjects''))))
   \<and> (snd (cell_data_plot ext) = Inl e
        \<longleftrightarrow> (\<exists>ev \<in> set (fst (cell_data_plot ext)). raised_by ext ev = Some e))
   \<and> (\<forall>i < length (fst (cell_data_plot ext)).
         raised_by ext (fst (cell_data_plot ext) ! i) \<noteq> None
           \<longrightarrow> Suc i = length (fst (cell_data_plot ext)))
   \<and> K_control_flow \<notin> set (map kind_of (concat code_cells))"
proof -
  have syn: "K_control_flow \<notin> set (map kind_of (concat code_cells))"
    by (simp add: code_cells_def load_call_def print_call_def plot_call_def kind_of_callee_def)
  have c2: "data_path ext () = Inl e \<longrightarrow>
        cell_data_plot ext = ([Call ''mne.datasets.sample.data_path'' [] []], Inl e)"
    by (simp add: cell_data_plot_no_dataset)
  have c3: "\<forall>p. data_path ext () = Inr p
          \<and> read_source_estimate ext (join p ''MEG/sample/sample_audvis-meg-eeg'') = Inl e
        \<longrightarrow> cell_data_plot ext = (calls_to_load p, Inl e)"
    by (simp add: cell_data_plot_no_file)
  have c4: "\<forall>p s. data_path ext () = Inr p
          \<and> read_source_estimate ext (join p ''MEG/sample/sample_audvis-meg-eeg'') = Inr s
        \<longrightarrow> cell_data_plot ext =
             (calls_to_load p @
                [Call ''print'' [PArr (times s)] [],
                 Call ''mne_g3d.viz.plot_source_estimates'' [PStc s]
                   (plot_keywords ''sample'' (join p ''subjects''))],
              plot_source_estimates ext s (plot_keywords ''sample'' (join p ''subjects'')))"
    by (simp add: cell_data_plot_loaded)
  have sem: "(snd (cell_data_plot ext) = Inl e \<longleftrightarrow>
      data_path ext () = Inl e
      \<or> (\<exists>p. data_path ext () = Inr p
            \<and> read_source_estimate ext (join p ''MEG/sample/sample_audvis-meg-eeg'') = Inl e)
      \<or> (\<exists>p s. data_path ext () = Inr p
            \<and> read_source_estimate ext (join p ''MEG/sample/sample_audvis-meg-eeg'') = Inr s
            \<and> plot_source_estimates ext s (plot_keywords ''sample'' (join p ''subjects''))
                = Inl e))
   \<and> (snd (cell_data_plot ext) = Inl e
      \<longleftrightarrow> (\<exists>ev \<in> set (fst (cell_data_plot ext)). raised_by ext ev = Some e))
   \<and> (\<forall>i < length (fst (cell_data_plot ext)).
         raised_by ext (fst (cell_data_plot ext) ! i) \<noteq> None
           \<longrightarrow> Suc i = length (fst (cell_data_plot ext)))"
  proof (cases "data_path ext ()")
    case (Inl x)
    show ?thesis
      by (simp add: cell_data_plot_no_dataset [OF Inl] Inl)
  next
    case p: (Inr p)
    show ?thesis
    proof (cases "read_source_estimate ext (join p ''MEG/sample/sample_audvis-meg-eeg'')")
      case (Inl x)
      show ?thesis
        by (simp add: cell_data_plot_no_file [OF p Inl] calls_to_load_def p Inl
            all_less_Suc_nth)
    next
      case s: (Inr s)
      show ?thesis
      proof (cases "plot_source_estimates ext s (plot_keywords ''sample'' (join p ''subjects''))")
        case (Inl x)
        show ?thesis
          by (simp add: cell_data_plot_loaded [OF p s] calls_to_load_def p s Inl
              all_less_Suc_nth)
      next
        case (Inr fig)
        show ?thesis
          by (simp add: cell_data_plot_loaded [OF p s] calls_to_load_def p s Inr
              all_less_Suc_nth)
      qed
    qed
  qed
  from sem syn c2 c3 c4 show ?thesis by blast
qed

theorem exceptions_propagate_witness:
  "data_path missing_file_run () = Inr sample_root
   \<and> read_source_estimate missing_file_run
        (join sample_root ''MEG/sample/sample_audvis-meg-eeg'')
       = Inl (Exn ''OSError'' ''file not found'')
   \<and> cell_data_plot missing_file_run
       = (calls_to_load sample_root, Inl (Exn ''OSError'' ''file not found''))
   \<and> length (fst (cell_data_plot missing_file_run)) = 4
   \<and> raised_by missing_file_run (fst (cell_data_plot missing_file_run) ! 3)
       = Some (Exn ''OSError'' ''file not found'')
   \<and> plot_source_estimates render_failure_run sample_stc
        (plot_keywords ''sample'' (join sample_root ''subjects''))
       = Inl (Exn ''RuntimeError'' ''no display'')
   \<and> snd (cell_data_plot render_failure_run) = Inl (Exn ''RuntimeError'' ''no display'')"
proof -
  let ?e = "Exn ''OSError'' ''file not found''"
  note inst = exceptions_propagate [of missing_file_run ?e]
  have r: "read_source_estimate missing_file_run
        (join sample_root ''MEG/sample/sample_audvis-meg-eeg'') = Inl ?e"
    by (rule missing_file_run_read)
  from inst missing_file_run_path r
  have run: "cell_data_plot missing_file_run = (calls_to_load sample_root, Inl ?e)"
    by blast
  have len: "length (fst (cell_data_plot missing_file_run)) = 4"
    by (simp add: run calls_to_load_def)
  have fin: "raised_by missing_file_run (fst (cell_data_plot missing_file_run) ! 3) = Some ?e"
    by (simp add: run calls_to_load_def missing_file_run_read)
  have pl: "plot_source_estimates render_failure_run sample_stc
        (plot_keywords ''sample'' (join sample_root ''subjects''))
       = Inl (Exn ''RuntimeError'' ''no display'')"
    by (rule render_failure_run_plot)
  from exceptions_propagate [of render_failure_run "Exn ''RuntimeError'' ''no display''"]
    render_failure_run_path render_failure_run_read pl
  have rf: "snd (cell_data_plot render_failure_run) = Inl (Exn ''RuntimeError'' ''no display'')"
    by blast
  from missing_file_run_path r run len fin pl rf show ?thesis by blast
qed

subsection \<open>What the cells consist of\<close>



subsection \<open>The load call\<close>

text \<open>
  C4. Once \<open>data_path()\<close> has returned \<open>p\<close>, the cell calls \<open>read_source_estimate\<close>
  exactly once, with the single positional argument
  \<open>path.join(p, 'MEG/sample/sample_audvis-meg-eeg')\<close> and no keyword argument, and what
  the library does with that path decides the rest: if it raises, the cell ends there
  with that exception; if it returns an object, that object is what the cell prints the
  times of and hands to the plot. The argument written in the call is the variable
  \<open>act_data\<close>, whose value is that path.
\<close>

theorem load_gets_the_path_only:
  assumes "data_path ext () = Inr p"
  shows "calls_of ''read_source_estimate'' (fst (cell_data_plot ext))
           = [([PStr (join p ''MEG/sample/sample_audvis-meg-eeg'')], [])]
     \<and> (\<forall>e. read_source_estimate ext (join p ''MEG/sample/sample_audvis-meg-eeg'') = Inl e
           \<longrightarrow> cell_data_plot ext = (calls_to_load p, Inl e))
     \<and> (\<forall>s. read_source_estimate ext (join p ''MEG/sample/sample_audvis-meg-eeg'') = Inr s
           \<longrightarrow> (\<exists>kw. cell_data_plot ext =
                  (calls_to_load p @
                     [Call ''print'' [PArr (times s)] [],
                      Call ''mne_g3d.viz.plot_source_estimates'' [PStc s] kw],
                   plot_source_estimates ext s kw)))
     \<and> (\<forall>s. map (arg_value (data_cell_env p s)) (positional_of load_call)
              = [Some (PStr (join p ''MEG/sample/sample_audvis-meg-eeg''))])
     \<and> keywords_of load_call = []"
proof -
  have a: "calls_of ''read_source_estimate'' (fst (cell_data_plot ext))
           = [([PStr (join p ''MEG/sample/sample_audvis-meg-eeg'')], [])]"
  proof (cases "read_source_estimate ext (join p ''MEG/sample/sample_audvis-meg-eeg'')")
    case (Inl e)
    show ?thesis
      by (simp add: cell_data_plot_no_file [OF assms Inl] calls_to_load_def)
  next
    case (Inr s)
    show ?thesis
      by (simp add: cell_data_plot_loaded [OF assms Inr] calls_to_load_def)
  qed
  have b: "\<forall>e. read_source_estimate ext (join p ''MEG/sample/sample_audvis-meg-eeg'') = Inl e
           \<longrightarrow> cell_data_plot ext = (calls_to_load p, Inl e)"
    by (simp add: cell_data_plot_no_file [OF assms])
  have c: "\<forall>s. read_source_estimate ext (join p ''MEG/sample/sample_audvis-meg-eeg'') = Inr s
           \<longrightarrow> (\<exists>kw. cell_data_plot ext =
                  (calls_to_load p @
                     [Call ''print'' [PArr (times s)] [],
                      Call ''mne_g3d.viz.plot_source_estimates'' [PStc s] kw],
                   plot_source_estimates ext s kw))"
    using cell_data_plot_loaded [OF assms] by blast
  have d: "\<forall>s. map (arg_value (data_cell_env p s)) (positional_of load_call)
              = [Some (PStr (join p ''MEG/sample/sample_audvis-meg-eeg''))]"
    by (simp add: load_positional_evaluated)
  have e: "keywords_of load_call = []"
    by (simp add: load_call_def)
  from a b c d e show ?thesis by blast
qed

theorem load_gets_the_path_only_witness:
  "data_path recorded_run () = Inr sample_root
   \<and> data_path missing_file_run () = Inr sample_root
   \<and> calls_of ''read_source_estimate'' (fst (cell_data_plot recorded_run))
       = [([PStr ''/home/user/mne_data/MNE-sample-data/MEG/sample/sample_audvis-meg-eeg''], [])]
   \<and> read_source_estimate missing_file_run
        (join sample_root ''MEG/sample/sample_audvis-meg-eeg'')
       = Inl (Exn ''OSError'' ''file not found'')
   \<and> cell_data_plot missing_file_run
       = (calls_to_load sample_root, Inl (Exn ''OSError'' ''file not found''))
   \<and> read_source_estimate recorded_run
        (join sample_root ''MEG/sample/sample_audvis-meg-eeg'') = Inr sample_stc
   \<and> snd (cell_data_plot recorded_run) = Inr 1"
proof -
  have "calls_of ''read_source_estimate'' (fst (cell_data_plot recorded_run))
       = [([PStr (join sample_root ''MEG/sample/sample_audvis-meg-eeg'')], [])]"
    using load_gets_the_path_only [OF recorded_run_path] by blast
  then have a: "calls_of ''read_source_estimate'' (fst (cell_data_plot recorded_run))
       = [([PStr ''/home/user/mne_data/MNE-sample-data/MEG/sample/sample_audvis-meg-eeg''], [])]"
    by (simp add: sample_root_join) (simp add: sample_root_def)
  have b: "cell_data_plot missing_file_run
       = (calls_to_load sample_root, Inl (Exn ''OSError'' ''file not found''))"
    using load_gets_the_path_only [OF missing_file_run_path] missing_file_run_read
    by blast
  have c: "snd (cell_data_plot recorded_run) = Inr 1"
    using load_gets_the_path_only [OF recorded_run_path] recorded_run_read
    by (auto simp: recorded_run_plot)
  from a b c recorded_run_path missing_file_run_path missing_file_run_read recorded_run_read
  show ?thesis by blast
qed

subsection \<open>The source estimate between load and plot\<close>

text \<open>
  C5. The object \<open>read_source_estimate\<close> returned is the object the plotting library is
  given: the cell ends as \<open>plot_source_estimates\<close> ends on exactly that object.
  Between the two calls the cell does one thing only: it prints the object's
  \<open>times\<close>. The positional argument written in the plot call is \<open>stc\<close>, which
  evaluates to the loaded object, and the argument of \<open>print\<close> is \<open>stc.times\<close>. In
  the source, the statements that mention \<open>stc\<close> are the assignment from the load
  call, the \<open>print\<close> and the plot call; no statement of the notebook assigns to an
  attribute or an element of an object.
\<close>

theorem stc_passed_unchanged:
  assumes "data_path ext () = Inr p"
    and "read_source_estimate ext (join p ''MEG/sample/sample_audvis-meg-eeg'') = Inr s"
  shows "(\<exists>kw. cell_data_plot ext =
            (calls_to_load p @
               [Call ''print'' [PArr (times s)] [],
                Call ''mne_g3d.viz.plot_source_estimates'' [PStc s] kw],
             plot_source_estimates ext s kw))
         \<and> (\<exists>pre kw. fst (cell_data_plot ext) =
            pre @ [Call ''read_source_estimate''
                     [PStr (join p ''MEG/sample/sample_audvis-meg-eeg'')] [],
                   Call ''print'' [PArr (times s)] [],
                   Call ''mne_g3d.viz.plot_source_estimates'' [PStc s] kw])
         \<and> map (arg_value (data_cell_env p s)) (positional_of plot_call) = [Some (PStc s)]
         \<and> map (arg_value (data_cell_env p s)) (positional_of print_call)
             = [Some (PArr (times s))]
         \<and> filter (mentions ''stc'') (concat code_cells) =
             [Assign (EName ''stc'') load_call, Expr print_call, Assign (EName ''fig'') plot_call]
         \<and> positional_of plot_call = [EName ''stc'']
         \<and> (\<forall>st \<in> set (concat code_cells). \<not> stores_into_object st)"
proof -
  have run: "\<exists>kw. cell_data_plot ext =
            (calls_to_load p @
               [Call ''print'' [PArr (times s)] [],
                Call ''mne_g3d.viz.plot_source_estimates'' [PStc s] kw],
             plot_source_estimates ext s kw)"
    using cell_data_plot_loaded [OF assms] by blast
  have "fst (cell_data_plot ext) =
          [Call ''mne.datasets.sample.data_path'' [] [],
           Call ''path.join'' [PStr p, PStr ''subjects''] [],
           Call ''path.join'' [PStr p, PStr ''MEG/sample/sample_audvis-meg-eeg''] []] @
          [Call ''read_source_estimate''
             [PStr (join p ''MEG/sample/sample_audvis-meg-eeg'')] [],
           Call ''print'' [PArr (times s)] [],
           Call ''mne_g3d.viz.plot_source_estimates'' [PStc s]
             (plot_keywords ''sample'' (join p ''subjects''))]"
    by (simp add: cell_data_plot_loaded [OF assms] calls_to_load_def)
  then have sem: "\<exists>pre kw. fst (cell_data_plot ext) =
            pre @ [Call ''read_source_estimate''
                     [PStr (join p ''MEG/sample/sample_audvis-meg-eeg'')] [],
                   Call ''print'' [PArr (times s)] [],
                   Call ''mne_g3d.viz.plot_source_estimates'' [PStc s] kw]"
    by blast
  have arg: "map (arg_value (data_cell_env p s)) (positional_of plot_call) = [Some (PStc s)]"
    by (rule plot_positional_evaluated)
  have arg2: "map (arg_value (data_cell_env p s)) (positional_of print_call)
             = [Some (PArr (times s))]"
    by (simp add: data_cell_env_def print_call_def)
  have syn1: "filter (mentions ''stc'') (concat code_cells) =
             [Assign (EName ''stc'') load_call, Expr print_call, Assign (EName ''fig'') plot_call]"
    by (simp add: code_cells_def mentions_def load_call_def print_call_def plot_call_def)
  have syn2: "positional_of plot_call = [EName ''stc'']"
    by (simp add: plot_call_def)
  have syn3: "\<forall>st \<in> set (concat code_cells). \<not> stores_into_object st"
    by (simp add: code_cells_def)
  from run sem arg arg2 syn1 syn2 syn3 show ?thesis by blast
qed

theorem stc_passed_unchanged_witness:
  "data_path recorded_run () = Inr sample_root
   \<and> read_source_estimate recorded_run
       (join sample_root ''MEG/sample/sample_audvis-meg-eeg'') = Inr sample_stc
   \<and> (\<exists>kw. cell_data_plot recorded_run =
            (calls_to_load sample_root @
               [Call ''print'' [PArr (times sample_stc)] [],
                Call ''mne_g3d.viz.plot_source_estimates'' [PStc sample_stc] kw],
             plot_source_estimates recorded_run sample_stc kw))
   \<and> snd (cell_data_plot recorded_run) = Inr 1"
proof -
  from stc_passed_unchanged [OF recorded_run_path recorded_run_read]
  have run: "\<exists>kw. cell_data_plot recorded_run =
            (calls_to_load sample_root @
               [Call ''print'' [PArr (times sample_stc)] [],
                Call ''mne_g3d.viz.plot_source_estimates'' [PStc sample_stc] kw],
             plot_source_estimates recorded_run sample_stc kw)"
    by blast
  then have "snd (cell_data_plot recorded_run) = Inr 1"
    by (auto simp: recorded_run_plot)
  with run recorded_run_path recorded_run_read show ?thesis by blast
qed

subsection \<open>Order of the operations\<close>

text \<open>
  C6. In every execution the operations of the data cell occur in the order
  \<open>data_path\<close>, \<open>path.join\<close>, \<open>path.join\<close>, \<open>read_source_estimate\<close>, \<open>print\<close>,
  \<open>plot_source_estimates\<close>, cut off where a call raises; and if the plot call occurs
  at all, then \<open>read_source_estimate\<close> has returned and all six have occurred in that
  order. It is the order in which the statements of the cell name them.
\<close>

theorem sequential_order:
  "prefix (map event_name (fst (cell_data_plot ext))) data_cell_order
   \<and> (''mne_g3d.viz.plot_source_estimates'' \<in> set (map event_name (fst (cell_data_plot ext)))
        \<longrightarrow> (\<exists>p s. data_path ext () = Inr p
                  \<and> read_source_estimate ext (join p ''MEG/sample/sample_audvis-meg-eeg'') = Inr s
                  \<and> map event_name (fst (cell_data_plot ext)) = data_cell_order))
   \<and> List.map_filter callee_of (code_cells ! 2) = data_cell_order"
proof -
  have src: "List.map_filter callee_of (code_cells ! 2) = data_cell_order"
    by (simp add: code_cells_def load_call_def print_call_def plot_call_def
        data_cell_order_def)
  have run: "prefix (map event_name (fst (cell_data_plot ext))) data_cell_order
   \<and> (''mne_g3d.viz.plot_source_estimates'' \<in> set (map event_name (fst (cell_data_plot ext)))
        \<longrightarrow> (\<exists>p s. data_path ext () = Inr p
                  \<and> read_source_estimate ext (join p ''MEG/sample/sample_audvis-meg-eeg'') = Inr s
                  \<and> map event_name (fst (cell_data_plot ext)) = data_cell_order))"
  proof (cases "data_path ext ()")
    case (Inl e)
    show ?thesis
      by (simp add: cell_data_plot_no_dataset [OF Inl] data_cell_order_def)
  next
    case p: (Inr p)
    show ?thesis
    proof (cases "read_source_estimate ext (join p ''MEG/sample/sample_audvis-meg-eeg'')")
      case (Inl e)
      show ?thesis
        by (simp add: cell_data_plot_no_file [OF p Inl] calls_to_load_def data_cell_order_def)
    next
      case (Inr s)
      show ?thesis
        by (simp add: cell_data_plot_loaded [OF p Inr] calls_to_load_def data_cell_order_def
            p Inr)
    qed
  qed
  from run src show ?thesis by blast
qed

theorem sequential_order_witness:
  "''mne_g3d.viz.plot_source_estimates''
      \<in> set (map event_name (fst (cell_data_plot recorded_run)))
   \<and> map event_name (fst (cell_data_plot recorded_run)) = data_cell_order
   \<and> map event_name (fst (cell_data_plot missing_file_run)) = take 4 data_cell_order"
proof -
  have a: "''mne_g3d.viz.plot_source_estimates''
      \<in> set (map event_name (fst (cell_data_plot recorded_run)))"
    by (simp add: recorded_trace)
  have b: "map event_name (fst (cell_data_plot missing_file_run)) = take 4 data_cell_order"
    by (simp add: cell_data_plot_def missing_file_run_def recorded_run_def data_cell_order_def)
  from sequential_order [of recorded_run] a b show ?thesis by blast
qed

subsection \<open>Size of the notebook\<close>

text \<open>
  C7. The code cells hold 23 source lines in all, which is fewer than 70; with the
  lines of the markdown cells counted as well the notebook still has fewer than 70.
\<close>

theorem code_under_70_lines:
  "length (code_lines notebook_cells) = 23 \<and> length (code_lines notebook_cells) < 70
   \<and> length (all_lines notebook_cells) < 70"
  by (simp add: code_lines_def all_lines_def notebook_cells_def)

subsection \<open>Both paths come from one dataset root\<close>

text \<open>
  C8. \<open>data_path()\<close> is called once. With \<open>p\<close> its result, the file the loader is
  given is \<open>path.join(p, 'MEG/sample/sample_audvis-meg-eeg')\<close>, the \<open>subjects_dir\<close>
  the plotting library is given is \<open>path.join(p, 'subjects')\<close>, and the \<open>subject\<close> it
  is given is the string \<open>'sample'\<close>. Both paths lie below \<open>p\<close>: each extends \<open>p\<close>,
  and its components are the components of \<open>p\<close> followed by \<open>subjects\<close>, respectively
  by \<open>MEG\<close>, \<open>sample\<close>, \<open>sample_audvis-meg-eeg\<close>.
\<close>

theorem paths_share_dataset_root:
  assumes "data_path ext () = Inr p"
    and "read_source_estimate ext (join p ''MEG/sample/sample_audvis-meg-eeg'') = Inr s"
  shows "(\<exists>kw. cell_data_plot ext =
             (calls_to_load p @
                [Call ''print'' [PArr (times s)] [],
                 Call ''mne_g3d.viz.plot_source_estimates'' [PStc s] kw],
              plot_source_estimates ext s kw)
           \<and> map_of kw ''subjects_dir'' = Some (PStr (join p ''subjects''))
           \<and> map_of kw ''subject'' = Some (PStr ''sample''))
     \<and> calls_of ''mne.datasets.sample.data_path'' (fst (cell_data_plot ext)) = [([], [])]
     \<and> calls_of ''read_source_estimate'' (fst (cell_data_plot ext))
         = [([PStr (join p ''MEG/sample/sample_audvis-meg-eeg'')], [])]
     \<and> (\<exists>kw. calls_of ''mne_g3d.viz.plot_source_estimates'' (fst (cell_data_plot ext))
                = [([PStc s], kw)]
           \<and> map_of kw ''subjects_dir'' = Some (PStr (join p ''subjects''))
           \<and> map_of kw ''subject'' = Some (PStr ''sample''))
     \<and> parts (join p ''subjects'') = parts p @ [''subjects'']
     \<and> parts (join p ''MEG/sample/sample_audvis-meg-eeg'')
         = parts p @ [''MEG'', ''sample'', ''sample_audvis-meg-eeg'']
     \<and> strict_prefix p (join p ''subjects'')
     \<and> strict_prefix p (join p ''MEG/sample/sample_audvis-meg-eeg'')"
proof -
  let ?tr = "fst (cell_data_plot ext)"
  let ?kw = "plot_keywords ''sample'' (join p ''subjects'') :: (string \<times> 'a pyval) list"
  have run: "cell_data_plot ext =
             (calls_to_load p @
                [Call ''print'' [PArr (times s)] [],
                 Call ''mne_g3d.viz.plot_source_estimates'' [PStc s] ?kw],
              plot_source_estimates ext s ?kw)"
    by (rule cell_data_plot_loaded [OF assms])
  have tr: "?tr = calls_to_load p @
        [Call ''print'' [PArr (times s)] [],
         Call ''mne_g3d.viz.plot_source_estimates'' [PStc s] ?kw]"
    by (simp add: run)
  have c1: "calls_of ''mne.datasets.sample.data_path'' ?tr = [([], [])]"
    unfolding tr by (simp add: calls_to_load_def)
  have c2: "calls_of ''read_source_estimate'' ?tr
         = [([PStr (join p ''MEG/sample/sample_audvis-meg-eeg'')], [])]"
    unfolding tr by (simp add: calls_to_load_def)
  have c3: "calls_of ''mne_g3d.viz.plot_source_estimates'' ?tr = [([PStc s], ?kw)]"
    unfolding tr by (simp add: calls_to_load_def)
  have k1: "map_of ?kw ''subjects_dir'' = Some (PStr (join p ''subjects''))"
    by (simp add: plot_keywords_def)
  have k2: "map_of ?kw ''subject'' = Some (PStr ''sample'')"
    by (simp add: plot_keywords_def)
  have q1: "parts (join p ''subjects'') = parts p @ [''subjects'']"
    by (simp add: parts_join startswith_def sep_def parts_subjects)
  have q2: "parts (join p ''MEG/sample/sample_audvis-meg-eeg'')
         = parts p @ [''MEG'', ''sample'', ''sample_audvis-meg-eeg'']"
    by (simp add: parts_join startswith_def sep_def parts_act_file)
  have p1: "strict_prefix p (join p ''subjects'')"
    using join_relative [of "''subjects''" p]
    by (auto simp: startswith_def sep_def strict_prefix_def prefix_def)
  have p2: "strict_prefix p (join p ''MEG/sample/sample_audvis-meg-eeg'')"
    using join_relative [of "''MEG/sample/sample_audvis-meg-eeg''" p]
    by (auto simp: startswith_def sep_def strict_prefix_def prefix_def)
  from run c1 c2 c3 k1 k2 q1 q2 p1 p2 show ?thesis by blast
qed

theorem paths_share_dataset_root_witness:
  "data_path recorded_run () = Inr sample_root
   \<and> read_source_estimate recorded_run
       (join sample_root ''MEG/sample/sample_audvis-meg-eeg'') = Inr sample_stc
   \<and> (\<exists>kw. snd (cell_data_plot recorded_run) = plot_source_estimates recorded_run sample_stc kw
           \<and> map_of kw ''subjects_dir''
               = Some (PStr ''/home/user/mne_data/MNE-sample-data/subjects'')
           \<and> map_of kw ''subject'' = Some (PStr ''sample''))
   \<and> calls_of ''read_source_estimate'' (fst (cell_data_plot recorded_run))
       = [([PStr ''/home/user/mne_data/MNE-sample-data/MEG/sample/sample_audvis-meg-eeg''], [])]
   \<and> parts ''/home/user/mne_data/MNE-sample-data/subjects''
       = [''home'', ''user'', ''mne_data'', ''MNE-sample-data'', ''subjects'']"
proof -
  have j1: "join sample_root ''subjects'' = ''/home/user/mne_data/MNE-sample-data/subjects''"
    by (simp add: join_def sample_root_def startswith_def endswith_def sep_def)
  have j2: "join sample_root ''MEG/sample/sample_audvis-meg-eeg''
              = ''/home/user/mne_data/MNE-sample-data/MEG/sample/sample_audvis-meg-eeg''"
    by (simp add: join_def sample_root_def startswith_def endswith_def sep_def)
  have ps: "parts sample_root = [''home'', ''user'', ''mne_data'', ''MNE-sample-data'']"
    by (simp add: parts_def sample_root_def sep_def)
  note inst = paths_share_dataset_root [OF recorded_run_path recorded_run_read]
  from inst have a: "\<exists>kw. snd (cell_data_plot recorded_run)
             = plot_source_estimates recorded_run sample_stc kw
           \<and> map_of kw ''subjects_dir'' = Some (PStr (join sample_root ''subjects''))
           \<and> map_of kw ''subject'' = Some (PStr ''sample'')"
    by (metis snd_conv)
  from inst have b: "calls_of ''read_source_estimate'' (fst (cell_data_plot recorded_run))
       = [([PStr (join sample_root ''MEG/sample/sample_audvis-meg-eeg'')], [])]"
    by blast
  from inst have c: "parts (join sample_root ''subjects'') = parts sample_root @ [''subjects'']"
    by blast
  from a b c recorded_run_path recorded_run_read
  show ?thesis unfolding j1 j2 ps by simp
qed

subsection \<open>Determinism of the glue\<close>

text \<open>
  C9. Take two executions in which \<open>data_path()\<close> returns the same path and
  \<open>read_source_estimate\<close> the same object. Then the cell makes the same calls with the
  same arguments in both and prints the same array, and in both it ends as the plotting
  library ends when given that object and one and the same list of keyword arguments:
  whatever else differs between the executions does not reach the arguments. The
  keyword arguments are the ones written in the call, evaluated in the cell's
  variables; every one of them other than \<open>subject\<close> and \<open>subjects_dir\<close> is a
  literal, and the one positional argument is \<open>stc\<close>.
\<close>

theorem glue_deterministic:
  assumes "data_path ext1 () = Inr p" and "data_path ext2 () = Inr p"
    and "read_source_estimate ext1 (join p ''MEG/sample/sample_audvis-meg-eeg'') = Inr s"
    and "read_source_estimate ext2 (join p ''MEG/sample/sample_audvis-meg-eeg'') = Inr s"
  shows "(\<exists>tr kw. cell_data_plot ext1 = (tr, plot_source_estimates ext1 s kw)
            \<and> cell_data_plot ext2 = (tr, plot_source_estimates ext2 s kw)
            \<and> calls_of ''read_source_estimate'' tr
                = [([PStr (join p ''MEG/sample/sample_audvis-meg-eeg'')], [])]
            \<and> calls_of ''mne_g3d.viz.plot_source_estimates'' tr = [([PStc s], kw)]
            \<and> calls_of ''print'' tr = [([PArr (times s)], [])]
            \<and> eval_keywords (data_cell_env p s) (keywords_of plot_call)
                = map (\<lambda>kw. (fst kw, Some (snd kw))) kw)
     \<and> fst (cell_data_plot ext1) = fst (cell_data_plot ext2)
     \<and> calls_of ''print'' (fst (cell_data_plot ext1)) = [([PArr (times s)], [])]
     \<and> (\<forall>kw \<in> set (keywords_of plot_call).
           fst kw \<noteq> ''subject'' \<and> fst kw \<noteq> ''subjects_dir'' \<longrightarrow> is_literal (snd kw))
     \<and> positional_of plot_call = [EName ''stc'']"
proof -
  let ?kw = "plot_keywords ''sample'' (join p ''subjects'') :: (string \<times> 'a pyval) list"
  let ?tr = "calls_to_load p @
                [Call ''print'' [PArr (times s)] [],
                 Call ''mne_g3d.viz.plot_source_estimates'' [PStc s] ?kw]"
  have r1: "cell_data_plot ext1 = (?tr, plot_source_estimates ext1 s ?kw)"
    by (rule cell_data_plot_loaded [OF assms(1) assms(3)])
  have r2: "cell_data_plot ext2 = (?tr, plot_source_estimates ext2 s ?kw)"
    by (rule cell_data_plot_loaded [OF assms(2) assms(4)])
  have t1: "calls_of ''read_source_estimate'' ?tr
                = [([PStr (join p ''MEG/sample/sample_audvis-meg-eeg'')], [])]"
    by (simp add: calls_to_load_def)
  have t2: "calls_of ''mne_g3d.viz.plot_source_estimates'' ?tr = [([PStc s], ?kw)]"
    by (simp add: calls_to_load_def)
  have t3: "calls_of ''print'' ?tr = [([PArr (times s)], [])]"
    by (simp add: calls_to_load_def)
  have ev: "eval_keywords (data_cell_env p s) (keywords_of plot_call)
                = map (\<lambda>kw. (fst kw, Some (snd kw))) ?kw"
    by (rule plot_keywords_evaluated)
  have a: "fst (cell_data_plot ext1) = fst (cell_data_plot ext2)"
    by (simp add: r1 r2)
  have b: "calls_of ''print'' (fst (cell_data_plot ext1)) = [([PArr (times s)], [])]"
    by (simp add: r1 t3)
  have c: "\<forall>kw \<in> set (keywords_of plot_call).
           fst kw \<noteq> ''subject'' \<and> fst kw \<noteq> ''subjects_dir'' \<longrightarrow> is_literal (snd kw)"
    by (simp add: plot_call_def)
  have d: "positional_of plot_call = [EName ''stc'']"
    by (simp add: plot_call_def)
  from r1 r2 t1 t2 t3 ev a b c d show ?thesis by blast
qed

theorem glue_deterministic_witness:
  "data_path recorded_run () = Inr sample_root
   \<and> data_path render_failure_run () = Inr sample_root
   \<and> read_source_estimate recorded_run
       (join sample_root ''MEG/sample/sample_audvis-meg-eeg'') = Inr sample_stc
   \<and> read_source_estimate render_failure_run
       (join sample_root ''MEG/sample/sample_audvis-meg-eeg'') = Inr sample_stc
   \<and> (\<exists>tr kw. cell_data_plot recorded_run = (tr, Inr 1)
         \<and> cell_data_plot render_failure_run = (tr, Inl (Exn ''RuntimeError'' ''no display''))
         \<and> calls_of ''mne_g3d.viz.plot_source_estimates'' tr = [([PStc sample_stc], kw)])"
proof -
  from glue_deterministic [OF recorded_run_path render_failure_run_path
      recorded_run_read render_failure_run_read]
  have "\<exists>tr kw. cell_data_plot recorded_run
               = (tr, plot_source_estimates recorded_run sample_stc kw)
         \<and> cell_data_plot render_failure_run
               = (tr, plot_source_estimates render_failure_run sample_stc kw)
         \<and> calls_of ''mne_g3d.viz.plot_source_estimates'' tr = [([PStc sample_stc], kw)]"
    by blast
  then have "\<exists>tr kw. cell_data_plot recorded_run = (tr, Inr 1)
         \<and> cell_data_plot render_failure_run = (tr, Inl (Exn ''RuntimeError'' ''no display''))
         \<and> calls_of ''mne_g3d.viz.plot_source_estimates'' tr = [([PStc sample_stc], kw)]"
    by (simp add: recorded_run_plot render_failure_run_plot)
  with recorded_run_path render_failure_run_path recorded_run_read render_failure_run_read
  show ?thesis by blast
qed

end
